theory Spec2Isabelle
  imports Main
begin

section \<open>File intake (config/multer.config.js)\<close>

subsection \<open>String primitives of the JavaScript runtime\<close>

text \<open>
  \<^verbatim>\<open>String.prototype.toLowerCase\<close> on the ASCII range: the letters A..Z (codes 65..90)
  move to a..z, every other character stays.
\<close>

definition lowerChar :: "char \<Rightarrow> char" where
  "lowerChar c =
     (let n = (of_char c :: nat) in if 65 \<le> n \<and> n \<le> 90 then char_of (n + 32) else c)"

definition toLowerCase :: "string \<Rightarrow> string" where
  "toLowerCase s = map lowerChar s"

text \<open>\<^verbatim>\<open>s.startsWith(t)\<close> and \<^verbatim>\<open>s.includes(t)\<close>: \<open>t\<close> at the front of \<open>s\<close>, \<open>t\<close> somewhere in \<open>s\<close>.\<close>

fun startsWith :: "string \<Rightarrow> string \<Rightarrow> bool" where
  "startsWith s [] = True"
| "startsWith [] (c # t) = False"
| "startsWith (d # s) (c # t) = (d = c \<and> startsWith s t)"

fun includes_str :: "string \<Rightarrow> string \<Rightarrow> bool" where
  "includes_str [] t = (t = [])"
| "includes_str (d # s) t = (startsWith (d # s) t \<or> includes_str s t)"

text \<open>
  A regular expression that is an alternation of literals, such as
  \<^verbatim>\<open>/pdf|doc|docx|txt|ppt|pptx/\<close>, is the list of its alternatives. It carries no anchor
  (\<^verbatim>\<open>^\<close>, \<^verbatim>\<open>$\<close>), so \<^verbatim>\<open>re.test(s)\<close> holds as soon as one alternative occurs anywhere
  in \<open>s\<close>.
\<close>

type_synonym regex = "string list"

definition regex_test :: "regex \<Rightarrow> string \<Rightarrow> bool" where
  "regex_test re s = list_ex (includes_str s) re"

text \<open>
  \<^verbatim>\<open>path.extname\<close> (POSIX flavour of Node's path module). It looks at the last segment of
  the path, trailing slashes dropped, and returns the text from the last dot of that
  segment to its end; the result is empty when the segment has no dot, when its only dot
  is its first character, and when the segment is \<^verbatim>\<open>..\<close>.
\<close>

definition lastSegment :: "string \<Rightarrow> string" where
  "lastSegment p =
     rev (takeWhile (\<lambda>c. c \<noteq> CHR ''/'') (dropWhile (\<lambda>c. c = CHR ''/'') (rev p)))"

definition extname :: "string \<Rightarrow> string" where
  "extname p =
     (let seg = lastSegment p;
          after = takeWhile (\<lambda>c. c \<noteq> CHR ''.'') (rev seg);
          startDot = length seg - length after - 1
      in if CHR ''.'' \<notin> set seg then []
         else if startDot = 0 then []
         else if seg = ''..'' then []
         else drop startDot seg)"

text \<open>\<^verbatim>\<open>path.join(a, b)\<close> for a directory \<open>a\<close> and a relative path \<open>b\<close> without dot segments.\<close>

definition path_join :: "string \<Rightarrow> string \<Rightarrow> string" where
  "path_join a b = a @ ''/'' @ b"

subsection \<open>Constants\<close>

record allowed_types =
  extensions :: regex
  mimeTypes :: "string list"

definition FILE_SIZE_LIMIT_profile :: nat where
  "FILE_SIZE_LIMIT_profile = 5 * 1024 * 1024"

definition FILE_SIZE_LIMIT_document :: nat where
  "FILE_SIZE_LIMIT_document = 50 * 1024 * 1024"

definition ALLOWED_IMAGE_TYPES :: allowed_types where
  "ALLOWED_IMAGE_TYPES =
     \<lparr>extensions = [''jpeg'', ''jpg'', ''png'', ''gif'', ''webp''],
      mimeTypes = [''image/jpeg'', ''image/jpg'', ''image/png'', ''image/gif'', ''image/webp'']\<rparr>"

definition ALLOWED_DOCUMENT_TYPES :: allowed_types where
  "ALLOWED_DOCUMENT_TYPES =
     \<lparr>extensions = [''pdf'', ''doc'', ''docx'', ''txt'', ''ppt'', ''pptx''],
      mimeTypes =
        [''application/pdf'',
         ''application/msword'',
         ''application/vnd.openxmlformats-officedocument.wordprocessingml.document'',
         ''text/plain'',
         ''application/vnd.ms-powerpoint'',
         ''application/vnd.openxmlformats-officedocument.presentationml.presentation'']\<rparr>"

text \<open>
  The extensions that the allow-list of section 6 of the specification names for
  documents, with their dot, as \<^verbatim>\<open>path.extname\<close> returns them.
\<close>

definition documentExtensions :: "string list" where
  "documentExtensions = [''.pdf'', ''.doc'', ''.docx'', ''.txt'', ''.ppt'', ''.pptx'']"

subsection \<open>The uploaded file and its validation\<close>

text \<open>
  The fields of multer's file object that the code reads; \<open>size_f\<close> is its \<^verbatim>\<open>size\<close>, the
  number of bytes of the payload.
\<close>

record multer_file =
  originalname :: string
  mimetype :: string
  filename :: string
  size_f :: nat

definition validateFileType :: "multer_file \<Rightarrow> allowed_types \<Rightarrow> bool" where
  "validateFileType f allowedTypes =
     (let ext = toLowerCase (extname (originalname f));
          isValidExtension = regex_test (extensions allowedTypes) ext;
          isValidMimeType = (mimetype f \<in> set (mimeTypes allowedTypes))
      in isValidExtension \<and> isValidMimeType)"

datatype upload_error = InvalidFileType | FileTooLarge

definition imageFileFilter :: "multer_file \<Rightarrow> upload_error + unit" where
  "imageFileFilter f =
     (if validateFileType f ALLOWED_IMAGE_TYPES then Inr () else Inl InvalidFileType)"

definition documentFileFilter :: "multer_file \<Rightarrow> upload_error + unit" where
  "documentFileFilter f =
     (if validateFileType f ALLOWED_DOCUMENT_TYPES then Inr () else Inl InvalidFileType)"

text \<open>
  A multer instance for one file: the file filter decides first, then the payload must
  not exceed \<^verbatim>\<open>limits.fileSize\<close> bytes.
\<close>

record multer_config =
  fileSize :: nat
  fileFilter :: "multer_file \<Rightarrow> upload_error + unit"

definition multer_single :: "multer_config \<Rightarrow> multer_file \<Rightarrow> upload_error + unit" where
  "multer_single cfg f =
     (case fileFilter cfg f of
        Inl e \<Rightarrow> Inl e
      | Inr _ \<Rightarrow> if size_f f > fileSize cfg then Inl FileTooLarge else Inr ())"

definition uploadProfileImage :: multer_config where
  "uploadProfileImage = \<lparr>fileSize = FILE_SIZE_LIMIT_profile, fileFilter = imageFileFilter\<rparr>"

definition uploadDocument :: multer_config where
  "uploadDocument = \<lparr>fileSize = FILE_SIZE_LIMIT_document, fileFilter = documentFileFilter\<rparr>"

subsection \<open>The file system and deleteFile\<close>

text \<open>
  The disk maps a path to what lies there. \<^verbatim>\<open>fs.existsSync\<close> holds for both kinds of
  entry; \<^verbatim>\<open>fs.unlinkSync\<close> removes a regular file and throws on a directory and on a
  missing path.
\<close>

datatype node = File | Dir

type_synonym disk = "string \<rightharpoonup> node"

datatype exn = Exn string

definition existsSync :: "disk \<Rightarrow> string \<Rightarrow> bool" where
  "existsSync d p = (d p \<noteq> None)"

definition unlinkSync :: "disk \<Rightarrow> string \<Rightarrow> exn + disk" where
  "unlinkSync d p =
     (case d p of
        None \<Rightarrow> Inl (Exn ''ENOENT'')
      | Some Dir \<Rightarrow> Inl (Exn ''EISDIR'')
      | Some File \<Rightarrow> Inr (d(p := None)))"

text \<open>
  The body of deleteFile's \<^verbatim>\<open>try\<close> block: an exception of \<^verbatim>\<open>unlinkSync\<close> leaves it as
  \<open>Inl\<close>.
\<close>

definition deleteFile_try :: "disk \<Rightarrow> string \<Rightarrow> exn + (bool \<times> disk)" where
  "deleteFile_try d filePath =
     (if existsSync d filePath then
        (case unlinkSync d filePath of
           Inl e \<Rightarrow> Inl e
         | Inr d' \<Rightarrow> Inr (True, d'))
      else Inr (False, d))"

text \<open>
  deleteFile: the \<^verbatim>\<open>catch\<close> branch logs and returns false, so the only exceptions that
  could leave the function are those of the \<^verbatim>\<open>try\<close> block, and all of them are caught.
\<close>

definition deleteFile :: "disk \<Rightarrow> string \<Rightarrow> exn + (bool \<times> disk)" where
  "deleteFile d filePath =
     (case deleteFile_try d filePath of
        Inl e \<Rightarrow> Inr (False, d)
      | Inr r \<Rightarrow> Inr r)"

section \<open>The credential store\<close>

text \<open>
  The schema of a user (models/user.js) is not among the sources. A user document has
  the fields that the controller reads and writes: \<open>uid\<close> is \<^verbatim>\<open>_id\<close>, \<open>password\<close> holds the
  bcrypt hash.
\<close>

record user =
  uid :: nat
  name :: string
  email :: string
  password :: string
  profileImage :: "string option"
  createdAt :: nat

text \<open>\<^verbatim>\<open>User.findOne({ email })\<close> and \<^verbatim>\<open>User.findById(id)\<close>: the first matching document.\<close>

definition findOne :: "user list \<Rightarrow> string \<Rightarrow> user option" where
  "findOne us e = find (\<lambda>u. email u = e) us"

definition findById :: "user list \<Rightarrow> nat \<Rightarrow> user option" where
  "findById us i = find (\<lambda>u. uid u = i) us"

text \<open>Replacing the first document with a given identifier, as a write to the store does.\<close>

fun replaceById :: "nat \<Rightarrow> user \<Rightarrow> user list \<Rightarrow> user list" where
  "replaceById i u' [] = []"
| "replaceById i u' (u # us) = (if uid u = i then u' # us else u # replaceById i u' us)"

text \<open>
  The update payload is the JSON object of the request body: a map from its top-level
  keys to values, each a string or a nested object of string fields.
\<close>

datatype body_value = Str string | Obj "(string \<times> string) list"

type_synonym payload = "string \<rightharpoonup> body_value"

text \<open>
  \<^verbatim>\<open>findByIdAndUpdate\<close> reads a top-level key that is not an operator as a field to set,
  and it honours the update operator \<^verbatim>\<open>$set\<close>, whose object names further fields to set;
  a top-level field wins over the same field under \<^verbatim>\<open>$set\<close>. Of the update operators
  only \<^verbatim>\<open>$set\<close> is modelled, and an object under any other key sets nothing. The call
  returns the updated document (\<^verbatim>\<open>new: true\<close>), or null when no document has the
  identifier.
\<close>

definition operatorSet :: "payload \<Rightarrow> string \<Rightarrow> string option" where
  "operatorSet upd k =
     (case upd ''$set'' of
        None \<Rightarrow> None
      | Some (Str v) \<Rightarrow> None
      | Some (Obj m) \<Rightarrow> map_of m k)"

definition fieldUpdate :: "payload \<Rightarrow> string \<Rightarrow> string option" where
  "fieldUpdate upd k =
     (case upd k of
        None \<Rightarrow> operatorSet upd k
      | Some (Str v) \<Rightarrow> Some v
      | Some (Obj m) \<Rightarrow> operatorSet upd k)"

definition applyUpdates :: "payload \<Rightarrow> user \<Rightarrow> user" where
  "applyUpdates upd u =
     u\<lparr>name := (case fieldUpdate upd ''name'' of None \<Rightarrow> name u | Some v \<Rightarrow> v),
       email := (case fieldUpdate upd ''email'' of None \<Rightarrow> email u | Some v \<Rightarrow> v),
       password := (case fieldUpdate upd ''password'' of None \<Rightarrow> password u | Some v \<Rightarrow> v),
       profileImage :=
         (case fieldUpdate upd ''profileImage'' of
            None \<Rightarrow> profileImage u
          | Some v \<Rightarrow> Some v)\<rparr>"

definition findByIdAndUpdate :: "user list \<Rightarrow> nat \<Rightarrow> payload \<Rightarrow> user option \<times> user list" where
  "findByIdAndUpdate us i upd =
     (case findById us i of
        None \<Rightarrow> (None, us)
      | Some u \<Rightarrow> (Some (applyUpdates upd u), replaceById i (applyUpdates upd u) us))"

text \<open>The identifier of a new document: one that no stored document has.\<close>

definition freshId :: "user list \<Rightarrow> nat" where
  "freshId us = Suc (fold max (map uid us) 0)"

text \<open>
  Modelled from the spec: \<^verbatim>\<open>verifyEmail\<close> of utils/verifyEmail.js, which is not among the
  sources. The specification has registration fail with DuplicateEmail ``if the email
  already exists'': the helper tells whether a user with this email is stored.
\<close>

definition verifyEmail :: "user list \<Rightarrow> string \<Rightarrow> bool" where
  "verifyEmail us e = list_ex (\<lambda>u. email u = e) us"

section \<open>The request environment\<close>

text \<open>
  Every awaited call of a handler either returns or throws; a throw takes the handler to
  its \<^verbatim>\<open>catch\<close> block. The environment of a request says which calls throw, and carries
  the libraries and helpers the controller imports: bcrypt, \<^verbatim>\<open>generateToken\<close>
  (utils/generateToken.js), the working directory and \<^verbatim>\<open>NODE_ENV\<close>.
\<close>

datatype call =
  VerifyEmail | BcryptHash | BcryptCompare | GenerateToken
  | UserCreate | UserFindOne | UserFindById | UserFindByIdAndUpdate | UserSave

record env =
  throws :: "call \<Rightarrow> bool"
  errorMessage :: "call \<Rightarrow> string"
  bcrypt_hash :: "string \<Rightarrow> string"
  bcrypt_compare :: "string \<Rightarrow> string \<Rightarrow> bool"
  generateToken :: "nat \<Rightarrow> string"
  development :: bool
  cwd :: string
  now :: nat

record state =
  users :: "user list"
  fsys :: disk

section \<open>Responses\<close>

record user_view =
  v_id :: nat
  v_name :: string
  v_email :: string
  v_profileImage :: "string option"
  v_createdAt :: "nat option"

datatype body_data = AuthData user_view string | ProfileData user_view

text \<open>
  The status code, the JSON envelope \<^verbatim>\<open>{success, message, data?, error?}\<close> and the token
  cookie that \<^verbatim>\<open>res.cookie\<close> sets.
\<close>

record response =
  status :: nat
  success :: bool
  message :: string
  data :: "body_data option"
  error :: "string option"
  cookie :: "string option"

definition failure :: "nat \<Rightarrow> string \<Rightarrow> response" where
  "failure code msg =
     \<lparr>status = code, success = False, message = msg, data = None, error = None, cookie = None\<rparr>"

section \<open>The authentication controller (controllers/auth.controller.js, lines 1 to 339)\<close>

subsection \<open>Helpers\<close>

text \<open>
  cleanupUploadedFile: nothing without a file, otherwise deleteFile on the file's place
  under uploads/profiles. The result of deleteFile is dropped.
\<close>

definition uploadPath :: "env \<Rightarrow> multer_file \<Rightarrow> string" where
  "uploadPath e f = path_join (cwd e) (''uploads/profiles/'' @ filename f)"

definition removePath :: "disk \<Rightarrow> string \<Rightarrow> disk" where
  "removePath d p = (case deleteFile d p of Inr (ok, d') \<Rightarrow> d' | Inl x \<Rightarrow> d)"

definition cleanupUploadedFile :: "env \<Rightarrow> state \<Rightarrow> multer_file option \<Rightarrow> state" where
  "cleanupUploadedFile e s file =
     (case file of
        None \<Rightarrow> s
      | Some f \<Rightarrow> s\<lparr>fsys := removePath (fsys s) (uploadPath e f)\<rparr>)"

definition formatUserResponse :: "user \<Rightarrow> user_view" where
  "formatUserResponse u =
     \<lparr>v_id = uid u, v_name = name u, v_email = email u,
      v_profileImage = profileImage u, v_createdAt = Some (createdAt u)\<rparr>"

text \<open>
  The \<^verbatim>\<open>catch\<close> blocks answer 500 with the handler's message; the error text is the
  exception's message in development mode only.
\<close>

definition internalError :: "env \<Rightarrow> string \<Rightarrow> call \<Rightarrow> response" where
  "internalError e msg c =
     \<lparr>status = 500, success = False, message = msg, data = None,
      error = Some (if development e then errorMessage e c else ''Internal server error''),
      cookie = None\<rparr>"

subsection \<open>register\<close>

definition register_catch :: "env \<Rightarrow> state \<Rightarrow> multer_file option \<Rightarrow> call \<Rightarrow> response \<times> state" where
  "register_catch e s file c =
     (internalError e ''User registration failed'' c, cleanupUploadedFile e s file)"

definition register ::
  "env \<Rightarrow> state \<Rightarrow> string \<Rightarrow> string \<Rightarrow> string \<Rightarrow> multer_file option \<Rightarrow> response \<times> state" where
  "register e s nm em pw file =
     (if throws e VerifyEmail then register_catch e s file VerifyEmail
      else if verifyEmail (users s) em then
        (failure 400 ''Email already registered'', cleanupUploadedFile e s file)
      else if throws e BcryptHash then register_catch e s file BcryptHash
      else
        let hashedPassword = bcrypt_hash e pw;
            userData = \<lparr>uid = freshId (users s), name = nm, email = em,
                        password = hashedPassword,
                        profileImage = map_option (\<lambda>f. ''uploads/profiles/'' @ filename f) file,
                        createdAt = now e\<rparr>
        in if throws e UserCreate then register_catch e s file UserCreate
           else
             let s' = s\<lparr>users := users s @ [userData]\<rparr>
             in if throws e GenerateToken then register_catch e s' file GenerateToken
                else
                  let token = generateToken e (uid userData)
                  in (\<lparr>status = 201, success = True,
                       message = ''User registered successfully'',
                       data = Some (AuthData (formatUserResponse userData) token),
                       error = None, cookie = Some token\<rparr>, s'))"

subsection \<open>login\<close>

definition login :: "env \<Rightarrow> state \<Rightarrow> string \<Rightarrow> string \<Rightarrow> response \<times> state" where
  "login e s em pw =
     (if throws e UserFindOne then (internalError e ''Login failed'' UserFindOne, s)
      else
        case findOne (users s) em of
          None \<Rightarrow> (failure 401 ''Invalid email or password'', s)
        | Some u \<Rightarrow>
            if throws e BcryptCompare then (internalError e ''Login failed'' BcryptCompare, s)
            else if \<not> bcrypt_compare e pw (password u) then
              (failure 401 ''Invalid email or password'', s)
            else if throws e GenerateToken then
              (internalError e ''Login failed'' GenerateToken, s)
            else
              let token = generateToken e (uid u)
              in (\<lparr>status = 200, success = True, message = ''User logged in successfully'',
                   data = Some (AuthData (formatUserResponse u) token),
                   error = None, cookie = Some token\<rparr>, s))"

subsection \<open>updateProfile\<close>

text \<open>
  The first half of the handler: the copy of the body without its password and email
  fields and, when the request carries a file, the lookup of the current user, the
  deletion of the old image and the new image path in the payload. \<open>Inl\<close> is a throw of
  the lookup. A missing or empty \<^verbatim>\<open>profileImage\<close> is falsy and deletes nothing.
\<close>

definition updateProfile_prepare ::
  "env \<Rightarrow> state \<Rightarrow> nat \<Rightarrow> payload \<Rightarrow> multer_file option \<Rightarrow> call + (payload \<times> state)" where
  "updateProfile_prepare e s i body file =
     (let updates = body(''password'' := None, ''email'' := None)
      in case file of
           None \<Rightarrow> Inr (updates, s)
         | Some f \<Rightarrow>
             if throws e UserFindById then Inl UserFindById
             else
               let currentUser = findById (users s) i;
                   s' = (case currentUser of
                           None \<Rightarrow> s
                         | Some cu \<Rightarrow>
                             (case profileImage cu of
                                None \<Rightarrow> s
                              | Some img \<Rightarrow>
                                  if img = [] then s
                                  else s\<lparr>fsys := removePath (fsys s) (path_join (cwd e) img)\<rparr>))
               in Inr (updates(''profileImage'' \<mapsto> Str (''uploads/profiles/'' @ filename f)), s'))"

definition updateProfile_catch :: "env \<Rightarrow> state \<Rightarrow> multer_file option \<Rightarrow> call \<Rightarrow> response \<times> state" where
  "updateProfile_catch e s file c =
     (internalError e ''Updating profile failed'' c, cleanupUploadedFile e s file)"

definition updateProfile ::
  "env \<Rightarrow> state \<Rightarrow> nat \<Rightarrow> payload \<Rightarrow> multer_file option \<Rightarrow> response \<times> state" where
  "updateProfile e s i body file =
     (case updateProfile_prepare e s i body file of
        Inl c \<Rightarrow> updateProfile_catch e s file c
      | Inr (updates, s') \<Rightarrow>
          if throws e UserFindByIdAndUpdate then
            updateProfile_catch e s' file UserFindByIdAndUpdate
          else
            case findByIdAndUpdate (users s') i updates of
              (None, us) \<Rightarrow> (failure 404 ''User not found'', s')
            | (Some u, us) \<Rightarrow>
                (\<lparr>status = 200, success = True, message = ''Profile updated successfully'',
                  data = Some (ProfileData (formatUserResponse u)),
                  error = None, cookie = None\<rparr>, s'\<lparr>users := us\<rparr>))"

subsection \<open>changePassword\<close>

text \<open>
  A body field is absent or a string. \<^verbatim>\<open>!x\<close> holds for an absent field and for the empty
  string.
\<close>

definition falsy :: "string option \<Rightarrow> bool" where
  "falsy x = (case x of None \<Rightarrow> True | Some v \<Rightarrow> v = [])"

definition changePassword ::
  "env \<Rightarrow> state \<Rightarrow> nat \<Rightarrow> string option \<Rightarrow> string option \<Rightarrow> response \<times> state" where
  "changePassword e s i oldPassword newPassword =
     (if falsy oldPassword \<or> falsy newPassword then
        (failure 400 ''Old password and new password are required'', s)
      else if length (the newPassword) < 6 then
        (failure 400 ''New password must be at least 6 characters long'', s)
      else if throws e UserFindById then
        (internalError e ''Changing password failed'' UserFindById, s)
      else
        case findById (users s) i of
          None \<Rightarrow> (failure 404 ''User not found'', s)
        | Some u \<Rightarrow>
            if throws e BcryptCompare then
              (internalError e ''Changing password failed'' BcryptCompare, s)
            else if \<not> bcrypt_compare e (the oldPassword) (password u) then
              (failure 401 ''Old password is incorrect'', s)
            else if throws e BcryptHash then
              (internalError e ''Changing password failed'' BcryptHash, s)
            else
              let u' = u\<lparr>password := bcrypt_hash e (the newPassword)\<rparr>
              in if throws e UserSave then
                   (internalError e ''Changing password failed'' UserSave, s)
                 else
                   (\<lparr>status = 200, success = True,
                     message = ''Password changed successfully'',
                     data = None, error = None, cookie = None\<rparr>,
                    s\<lparr>users := replaceById i u' (users s)\<rparr>))"

section \<open>The second definitions of the controller (auth.controller.js, lines 341 to 585)\<close>

text \<open>
  The file defines its handlers a second time. These definitions never read
  \<^verbatim>\<open>req.file\<close>, always put the exception's message in the error field, and build the
  user view of register and login without the creation time. The document that
  updateProfile returns as data is shown through the view of the first definitions.
\<close>

definition userResponse :: "user \<Rightarrow> user_view" where
  "userResponse u =
     \<lparr>v_id = uid u, v_name = name u, v_email = email u,
      v_profileImage = profileImage u, v_createdAt = None\<rparr>"

definition internalError2 :: "env \<Rightarrow> string \<Rightarrow> call \<Rightarrow> response" where
  "internalError2 e msg c =
     \<lparr>status = 500, success = False, message = msg, data = None,
      error = Some (errorMessage e c), cookie = None\<rparr>"

definition register2 ::
  "env \<Rightarrow> state \<Rightarrow> string \<Rightarrow> string \<Rightarrow> string \<Rightarrow> multer_file option \<Rightarrow> response \<times> state" where
  "register2 e s nm em pw file =
     (if throws e VerifyEmail then (internalError2 e ''User registration failed'' VerifyEmail, s)
      else if verifyEmail (users s) em then (failure 400 ''Email already registered'', s)
      else if throws e BcryptHash then
        (internalError2 e ''User registration failed'' BcryptHash, s)
      else
        let hashedPassword = bcrypt_hash e pw;
            u = \<lparr>uid = freshId (users s), name = nm, email = em, password = hashedPassword,
                 profileImage = None, createdAt = now e\<rparr>
        in if throws e UserSave then (internalError2 e ''User registration failed'' UserSave, s)
           else
             let s' = s\<lparr>users := users s @ [u]\<rparr>
             in if throws e GenerateToken then
                  (internalError2 e ''User registration failed'' GenerateToken, s')
                else
                  let token = generateToken e (uid u)
                  in (\<lparr>status = 201, success = True,
                       message = ''User registered successfully'',
                       data = Some (AuthData (userResponse u) token),
                       error = None, cookie = Some token\<rparr>, s'))"

definition login2 :: "env \<Rightarrow> state \<Rightarrow> string \<Rightarrow> string \<Rightarrow> response \<times> state" where
  "login2 e s em pw =
     (if throws e UserFindOne then (internalError2 e ''Login failed'' UserFindOne, s)
      else
        case findOne (users s) em of
          None \<Rightarrow> (failure 404 ''User not found'', s)
        | Some u \<Rightarrow>
            if throws e BcryptCompare then (internalError2 e ''Login failed'' BcryptCompare, s)
            else if \<not> bcrypt_compare e pw (password u) then (failure 401 ''Invalid password'', s)
            else if throws e GenerateToken then
              (internalError2 e ''Login failed'' GenerateToken, s)
            else
              let token = generateToken e (uid u)
              in (\<lparr>status = 200, success = True, message = ''User logged in successfully'',
                   data = Some (AuthData (userResponse u) token),
                   error = None, cookie = Some token\<rparr>, s))"

definition updateProfile2 ::
  "env \<Rightarrow> state \<Rightarrow> nat \<Rightarrow> payload \<Rightarrow> multer_file option \<Rightarrow> response \<times> state" where
  "updateProfile2 e s i body file =
     (let updates = body(''password'' := None)
      in if throws e UserFindByIdAndUpdate then
           (internalError2 e ''Updating profile failed'' UserFindByIdAndUpdate, s)
         else
           case findByIdAndUpdate (users s) i updates of
             (None, us) \<Rightarrow> (failure 404 ''User not found'', s)
           | (Some u, us) \<Rightarrow>
               (\<lparr>status = 200, success = True, message = ''Profile updated successfully'',
                 data = Some (ProfileData (formatUserResponse u)),
                 error = None, cookie = None\<rparr>, s\<lparr>users := us\<rparr>))"

text \<open>The second changePassword has the check for missing fields and no length check.\<close>

definition changePassword2 ::
  "env \<Rightarrow> state \<Rightarrow> nat \<Rightarrow> string option \<Rightarrow> string option \<Rightarrow> response \<times> state" where
  "changePassword2 e s i oldPassword newPassword =
     (if falsy oldPassword \<or> falsy newPassword then
        (failure 400 ''Old password and new password are required'', s)
      else if throws e UserFindById then
        (internalError2 e ''Changing password failed'' UserFindById, s)
      else
        case findById (users s) i of
          None \<Rightarrow> (failure 404 ''User not found'', s)
        | Some u \<Rightarrow>
            if throws e BcryptCompare then
              (internalError2 e ''Changing password failed'' BcryptCompare, s)
            else if \<not> bcrypt_compare e (the oldPassword) (password u) then
              (failure 401 ''Old password is incorrect'', s)
            else if throws e BcryptHash then
              (internalError2 e ''Changing password failed'' BcryptHash, s)
            else
              let u' = u\<lparr>password := bcrypt_hash e (the newPassword)\<rparr>
              in if throws e UserSave then
                   (internalError2 e ''Changing password failed'' UserSave, s)
                 else
                   (\<lparr>status = 200, success = True,
                     message = ''Password changed successfully'',
                     data = None, error = None, cookie = None\<rparr>,
                    s\<lparr>users := replaceById i u' (users s)\<rparr>))"

section \<open>The quiz schema (models/Quiz.js)\<close>

datatype difficulty_level = Easy | Medium | Hard

record answer_option =
  option_text :: string
  option_isCorrect :: bool

record quiz_question =
  question :: string
  options :: "answer_option list"
  correctAnswer :: string
  explanation :: "string option"
  difficulty :: difficulty_level

record user_answer =
  questionIndex :: int
  selectedAnswer :: string
  isCorrect :: bool

record quiz =
  userId :: nat
  documentId :: nat
  questions :: "quiz_question list"
  userAnswers :: "user_answer list"
  score :: int
  totalQuestions :: int
  answerAttempts :: int
  completedAt :: "nat option"

text \<open>
  A document built from the required fields alone: the schema fills in its defaults, an
  empty \<open>userAnswers\<close>, \<open>score\<close> 0 and \<open>answerAttempts\<close> 0, and leaves \<open>completedAt\<close> unset.
\<close>

definition newQuiz :: "nat \<Rightarrow> nat \<Rightarrow> quiz_question list \<Rightarrow> int \<Rightarrow> quiz" where
  "newQuiz u d qs n =
     \<lparr>userId = u, documentId = d, questions = qs, userAnswers = [], score = 0,
      totalQuestions = n, answerAttempts = 0, completedAt = None\<rparr>"

text \<open>The two conditions that the specification states as the invariant of a quiz.\<close>

definition scoreMatches :: "quiz \<Rightarrow> bool" where
  "scoreMatches q = (score q = int (length (filter isCorrect (userAnswers q))))"

definition indicesValid :: "quiz \<Rightarrow> bool" where
  "indicesValid q =
     list_all (\<lambda>a. 0 \<le> questionIndex a \<and> questionIndex a < int (length (questions q)))
       (userAnswers q)"

subsection \<open>The operations on a quiz\<close>

text \<open>
  Only the schema is among the sources; the quiz routes and their controller, which
  create and change quizzes, are not. The operations below follow section 3 of the
  specification, which says that a quiz is ``created after generation from a document,
  mutated as the user answers questions, completed once at submission''.
\<close>

text \<open>
  Modelled from the spec: the errors of the missing quiz controller. An answer must
  ``reference an existing question'', and a quiz is ``completed once''.
\<close>

datatype quiz_error = NoSuchQuestion | AlreadyCompleted

text \<open>
  Modelled from the spec: creation in the missing quiz controller. A quiz is ``created
  after generation from a document'': it takes the generated questions, their number as
  the total question count, and the schema's defaults for the rest.
\<close>

definition createQuiz :: "nat \<Rightarrow> nat \<Rightarrow> quiz_question list \<Rightarrow> quiz" where
  "createQuiz u d qs = newQuiz u d qs (int (length qs))"

text \<open>
  Modelled from the spec: answering in the missing quiz controller. A quiz is ``mutated
  as the user answers questions''; an answer is recorded ``by question index, selected
  answer, correctness flag''; ``each answer's question index must reference an existing
  question'' and ``score must equal count of correct answers recorded''. An answer to an
  existing question is appended with its flag and counted in the score and in the
  attempts; an answer to any other index is refused.
\<close>

definition answerQuestion :: "quiz \<Rightarrow> int \<Rightarrow> string \<Rightarrow> quiz_error + quiz" where
  "answerQuestion q i sel =
     (if 0 \<le> i \<and> i < int (length (questions q)) then
        let correct = (sel = correctAnswer (questions q ! nat i));
            a = \<lparr>questionIndex = i, selectedAnswer = sel, isCorrect = correct\<rparr>
        in Inr (q\<lparr>userAnswers := userAnswers q @ [a],
                  score := score q + (if correct then 1 else 0),
                  answerAttempts := answerAttempts q + 1\<rparr>)
      else Inl NoSuchQuestion)"

text \<open>
  Modelled from the spec: submission in the missing quiz controller. A quiz is
  ``completed once at submission'': the first submission stamps the completion time, a
  later one is refused.
\<close>

definition submitQuiz :: "quiz \<Rightarrow> nat \<Rightarrow> quiz_error + quiz" where
  "submitQuiz q t =
     (case completedAt q of
        None \<Rightarrow> Inr (q\<lparr>completedAt := Some t\<rparr>)
      | Some t' \<Rightarrow> Inl AlreadyCompleted)"

text \<open>
  Modelled from the spec: the states of a quiz that the missing quiz controller reaches,
  by creation followed by answers and submissions that were not refused.
\<close>

inductive reachable :: "quiz \<Rightarrow> bool" where
  created: "reachable (createQuiz u d qs)"
| answered: "reachable q \<Longrightarrow> answerQuestion q i sel = Inr q' \<Longrightarrow> reachable q'"
| submitted: "reachable q \<Longrightarrow> submitQuiz q t = Inr q' \<Longrightarrow> reachable q'"

section \<open>A concrete deployment for the examples\<close>

text \<open>
  An environment in which no call throws, with a stand-in for bcrypt whose comparison
  accepts exactly the hashed plaintext, one stored user whose profile image lies on disk,
  and an uploaded image that multer has written next to it.
\<close>

definition demoEnv :: env where
  "demoEnv =
     \<lparr>throws = (\<lambda>c. False), errorMessage = (\<lambda>c. ''connection lost''),
      bcrypt_hash = (\<lambda>p. ''$2a$10$'' @ p),
      bcrypt_compare = (\<lambda>p h. h = ''$2a$10$'' @ p),
      generateToken = (\<lambda>i. ''signed-token''),
      development = False, cwd = ''/srv/app'', now = 0\<rparr>"

definition ann :: user where
  "ann =
     \<lparr>uid = 1, name = ''Ann'', email = ''ann@example.com'', password = ''$2a$10$secret1'',
      profileImage = Some ''uploads/profiles/old.png'', createdAt = 0\<rparr>"

definition newImage :: multer_file where
  "newImage =
     \<lparr>originalname = ''me.png'', mimetype = ''image/png'', filename = ''new.png'', size_f = 2048\<rparr>"

definition demoState :: state where
  "demoState =
     \<lparr>users = [ann],
      fsys = [''/srv/app/uploads/profiles/old.png'' \<mapsto> File,
              ''/srv/app/uploads/profiles/new.png'' \<mapsto> File]\<rparr>"

text \<open>The same environment, except that the database write of a profile update throws.\<close>

definition failingUpdateEnv :: env where
  "failingUpdateEnv = demoEnv\<lparr>throws := (\<lambda>c. c = UserFindByIdAndUpdate)\<rparr>"

text \<open>The same environment, except that the password comparison throws.\<close>

definition failingCompareEnv :: env where
  "failingCompareEnv = demoEnv\<lparr>throws := (\<lambda>c. c = BcryptCompare)\<rparr>"


text \<open>
  A quiz with one question that was answered twice and then submitted, and a document
  that has every field the schema requires although its score and its answers disagree.
\<close>

definition q1 :: quiz_question where
  "q1 = \<lparr>question = ''2 + 2?'',
         options = [\<lparr>option_text = ''3'', option_isCorrect = False\<rparr>,
                    \<lparr>option_text = ''4'', option_isCorrect = True\<rparr>],
         correctAnswer = ''4'', explanation = None, difficulty = Easy\<rparr>"

definition answeredQuiz :: quiz where
  "answeredQuiz =
     \<lparr>userId = 1, documentId = 7, questions = [q1],
      userAnswers = [\<lparr>questionIndex = 0, selectedAnswer = ''4'', isCorrect = True\<rparr>,
                     \<lparr>questionIndex = 0, selectedAnswer = ''3'', isCorrect = False\<rparr>],
      score = 1, totalQuestions = 1, answerAttempts = 2, completedAt = Some 99\<rparr>"

definition inconsistentQuiz :: quiz where
  "inconsistentQuiz =
     \<lparr>userId = 1, documentId = 7, questions = [],
      userAnswers = [\<lparr>questionIndex = 5, selectedAnswer = ''4'', isCorrect = True\<rparr>],
      score = 0, totalQuestions = 0, answerAttempts = 0, completedAt = None\<rparr>"

section \<open>Properties of file intake\<close>

subsection \<open>Substring search\<close>

lemma startsWith_append: "startsWith (t @ post) t"
  by (induction t) auto

lemma startsWith_split: "startsWith s t \<Longrightarrow> \<exists>post. s = t @ post"
  by (induction s t rule: startsWith.induct) auto

lemma includes_str_append: "includes_str (pre @ t @ post) t"
proof (induction pre)
  case Nil
  show ?case by (cases "t @ post") (use startsWith_append[of t post] in auto)
next
  case (Cons c pre)
  then show ?case by simp
qed

lemma includes_str_split: "includes_str s t \<Longrightarrow> \<exists>pre post. s = pre @ t @ post"
proof (induction s)
  case Nil
  then show ?case by simp
next
  case (Cons c s)
  from Cons.prems have "startsWith (c # s) t \<or> includes_str s t" by simp
  then show ?case
  proof
    assume "startsWith (c # s) t"
    then obtain post where "c # s = t @ post" using startsWith_split by blast
    then have "c # s = [] @ t @ post" by simp
    then show ?thesis by blast
  next
    assume "includes_str s t"
    with Cons.IH obtain pre post where "s = pre @ t @ post" by blast
    then have "c # s = (c # pre) @ t @ post" by simp
    then show ?thesis by blast
  qed
qed

lemma regex_test_iff:
  "regex_test re s \<longleftrightarrow> (\<exists>t \<in> set re. \<exists>pre post. s = pre @ t @ post)"
  unfolding regex_test_def list_ex_iff
  using includes_str_append includes_str_split by blast

lemma validateFileType_token:
  assumes "t \<in> set (extensions a)"
    and "toLowerCase (extname (originalname f)) = pre @ t @ post"
    and "mimetype f \<in> set (mimeTypes a)"
  shows "validateFileType f a"
  using assms by (auto simp: validateFileType_def regex_test_iff)

subsection \<open>The document upload\<close>

lemma exe_extension_rejected:
  "regex_test (extensions ALLOWED_DOCUMENT_TYPES) (toLowerCase (extname ''resume.exe'')) = False"
  by code_simp

lemma pdf_extension_accepted: "regex_test (extensions ALLOWED_DOCUMENT_TYPES) ''.pdf''"
  by code_simp

text \<open>
  What holds of the document upload: it accepts a file only if validateFileType passes
  and the file has at most 50MB, it refuses \<^verbatim>\<open>resume.exe\<close> whatever the MIME type, and it
  accepts a file with extension \<^verbatim>\<open>.pdf\<close>, MIME type \<^verbatim>\<open>application/pdf\<close> and at most 50MB.
\<close>

lemma document_upload_examples:
  "(multer_single uploadDocument f = Inr () \<longrightarrow>
        validateFileType f ALLOWED_DOCUMENT_TYPES \<and> size_f f \<le> 50 * 1024 * 1024)
   \<and> (originalname f = ''resume.exe'' \<longrightarrow>
        \<not> validateFileType f ALLOWED_DOCUMENT_TYPES
        \<and> multer_single uploadDocument f = Inl InvalidFileType)
   \<and> (toLowerCase (extname (originalname f)) = ''.pdf'' \<and> mimetype f = ''application/pdf''
        \<and> size_f f \<le> 50 * 1024 * 1024 \<longrightarrow>
        validateFileType f ALLOWED_DOCUMENT_TYPES \<and> multer_single uploadDocument f = Inr ())"
proof -
  have exe: "originalname f = ''resume.exe'' \<Longrightarrow> \<not> validateFileType f ALLOWED_DOCUMENT_TYPES"
    by (simp add: validateFileType_def exe_extension_rejected)
  have pdf: "toLowerCase (extname (originalname f)) = ''.pdf'' \<Longrightarrow>
      mimetype f = ''application/pdf'' \<Longrightarrow> validateFileType f ALLOWED_DOCUMENT_TYPES"
    using pdf_extension_accepted
    by (simp add: validateFileType_def) (simp add: ALLOWED_DOCUMENT_TYPES_def)
  have acc: "multer_single uploadDocument f = Inr () \<Longrightarrow>
      validateFileType f ALLOWED_DOCUMENT_TYPES \<and> size_f f \<le> 50 * 1024 * 1024"
    by (auto simp: multer_single_def uploadDocument_def documentFileFilter_def
        FILE_SIZE_LIMIT_document_def split: sum.splits if_splits)
  have refused: "\<not> validateFileType f ALLOWED_DOCUMENT_TYPES \<Longrightarrow>
      multer_single uploadDocument f = Inl InvalidFileType"
    by (simp add: multer_single_def uploadDocument_def documentFileFilter_def)
  have stored: "validateFileType f ALLOWED_DOCUMENT_TYPES \<Longrightarrow>
      size_f f \<le> 50 * 1024 * 1024 \<Longrightarrow> multer_single uploadDocument f = Inr ()"
    by (simp add: multer_single_def uploadDocument_def documentFileFilter_def
        FILE_SIZE_LIMIT_document_def)
  show ?thesis
    using exe pdf acc refused stored by blast
qed

lemma fakepdf_extension: "toLowerCase (extname ''cv.fakepdf'') = ''.fakepdf''"
  by code_simp

text \<open>
  C7. A file should be accepted only when both its extension and its declared MIME type
  pass the allow-list, which names pdf, doc, docx, txt, ppt and pptx for documents. The
  document upload accepts \<^verbatim>\<open>cv.fakepdf\<close> with the MIME type \<^verbatim>\<open>text/plain\<close>: its extension
  \<^verbatim>\<open>.fakepdf\<close> is none of the allowed ones, and it passes because the pattern of the
  extension test is not anchored and finds \<^verbatim>\<open>pdf\<close> inside it.
\<close>

theorem uploadDocument_accepts_unlisted_extension:
  "toLowerCase (extname ''cv.fakepdf'') = ''.fakepdf''
   \<and> ''.fakepdf'' \<notin> set documentExtensions
   \<and> ''text/plain'' \<in> set (mimeTypes ALLOWED_DOCUMENT_TYPES)
   \<and> validateFileType
        \<lparr>originalname = ''cv.fakepdf'', mimetype = ''text/plain'',
         filename = ''doc-guest-1-2-cv.fakepdf'', size_f = 10\<rparr> ALLOWED_DOCUMENT_TYPES
   \<and> multer_single uploadDocument
        \<lparr>originalname = ''cv.fakepdf'', mimetype = ''text/plain'',
         filename = ''doc-guest-1-2-cv.fakepdf'', size_f = 10\<rparr> = Inr ()"
proof -
  let ?f = "\<lparr>originalname = ''cv.fakepdf'', mimetype = ''text/plain'',
             filename = ''doc-guest-1-2-cv.fakepdf'', size_f = 10\<rparr>"
  have pdf: "''pdf'' \<in> set (extensions ALLOWED_DOCUMENT_TYPES)"
    and m: "''text/plain'' \<in> set (mimeTypes ALLOWED_DOCUMENT_TYPES)"
    by (simp_all add: ALLOWED_DOCUMENT_TYPES_def)
  have ext: "toLowerCase (extname (originalname ?f)) = ''.fake'' @ ''pdf'' @ []"
    by (simp add: fakepdf_extension)
  have v: "validateFileType ?f ALLOWED_DOCUMENT_TYPES"
    using m by (intro validateFileType_token[OF pdf ext]) simp
  have a: "multer_single uploadDocument ?f = Inr ()"
    using v
    by (simp add: multer_single_def uploadDocument_def documentFileFilter_def
        FILE_SIZE_LIMIT_document_def)
  show ?thesis
    using fakepdf_extension m v a by (simp add: documentExtensions_def)
qed

subsection \<open>The extension pattern is not anchored\<close>

lemma ext_fakepdf: "toLowerCase (extname ''cv.fakepdf'') = ''.fake'' @ ''pdf'' @ []"
  by code_simp

lemma ext_htdoc: "toLowerCase (extname ''index.htdoc'') = ''.ht'' @ ''doc'' @ []"
  by code_simp

text \<open>
  C9. The extension test is a substring match. The files \<^verbatim>\<open>cv.fakepdf\<close> and
  \<^verbatim>\<open>index.htdoc\<close> have extensions that are not among the allowed document extensions,
  and each passes validateFileType with every MIME type of the document list. In general
  a file passes as soon as an allowed token occurs anywhere inside its lower-cased
  extension and its MIME type is listed.
\<close>

theorem unanchored_extension_match:
  "(m \<in> set (mimeTypes ALLOWED_DOCUMENT_TYPES) \<longrightarrow>
      toLowerCase (extname ''cv.fakepdf'') \<notin> set documentExtensions
      \<and> validateFileType
          \<lparr>originalname = ''cv.fakepdf'', mimetype = m, filename = fn, size_f = n\<rparr>
          ALLOWED_DOCUMENT_TYPES
      \<and> toLowerCase (extname ''index.htdoc'') \<notin> set documentExtensions
      \<and> validateFileType
          \<lparr>originalname = ''index.htdoc'', mimetype = m, filename = fn, size_f = n\<rparr>
          ALLOWED_DOCUMENT_TYPES)
   \<and> (t \<in> set (extensions a) \<and> toLowerCase (extname (originalname f)) = pre @ t @ post
        \<and> mimetype f \<in> set (mimeTypes a) \<longrightarrow> validateFileType f a)"
proof (intro conjI impI)
  assume m: "m \<in> set (mimeTypes ALLOWED_DOCUMENT_TYPES)"
  show "toLowerCase (extname ''cv.fakepdf'') \<notin> set documentExtensions"
    by code_simp
  show "toLowerCase (extname ''index.htdoc'') \<notin> set documentExtensions"
    by code_simp
  have pdf: "''pdf'' \<in> set (extensions ALLOWED_DOCUMENT_TYPES)"
    and doc: "''doc'' \<in> set (extensions ALLOWED_DOCUMENT_TYPES)"
    by (simp_all add: ALLOWED_DOCUMENT_TYPES_def)
  show "validateFileType
          \<lparr>originalname = ''cv.fakepdf'', mimetype = m, filename = fn, size_f = n\<rparr>
          ALLOWED_DOCUMENT_TYPES"
    using m
    by (intro validateFileType_token[OF pdf, of _ "''.fake''" "[]"]) (simp_all add: ext_fakepdf)
  show "validateFileType
          \<lparr>originalname = ''index.htdoc'', mimetype = m, filename = fn, size_f = n\<rparr>
          ALLOWED_DOCUMENT_TYPES"
    using m
    by (intro validateFileType_token[OF doc, of _ "''.ht''" "[]"]) (simp_all add: ext_htdoc)
next
  assume "t \<in> set (extensions a) \<and> toLowerCase (extname (originalname f)) = pre @ t @ post
        \<and> mimetype f \<in> set (mimeTypes a)"
  then show "validateFileType f a"
    using validateFileType_token by blast
qed

theorem unanchored_extension_match_witness:
  "''text/plain'' \<in> set (mimeTypes ALLOWED_DOCUMENT_TYPES)
   \<and> validateFileType
        \<lparr>originalname = ''cv.fakepdf'', mimetype = ''text/plain'',
         filename = ''doc-guest-1-2-cv.fakepdf'', size_f = 10\<rparr> ALLOWED_DOCUMENT_TYPES
   \<and> ''png'' \<in> set (extensions ALLOWED_IMAGE_TYPES)
   \<and> validateFileType
        \<lparr>originalname = ''a.xpngx'', mimetype = ''image/gif'', filename = ''f'', size_f = 1\<rparr>
        ALLOWED_IMAGE_TYPES"
proof -
  have m: "''text/plain'' \<in> set (mimeTypes ALLOWED_DOCUMENT_TYPES)"
    by (simp add: ALLOWED_DOCUMENT_TYPES_def)
  have t: "''png'' \<in> set (extensions ALLOWED_IMAGE_TYPES)"
    and g: "''image/gif'' \<in> set (mimeTypes ALLOWED_IMAGE_TYPES)"
    by (simp_all add: ALLOWED_IMAGE_TYPES_def)
  have x: "toLowerCase (extname ''a.xpngx'') = ''.x'' @ ''png'' @ ''x''"
    by code_simp
  show ?thesis
    using m t g x
      unanchored_extension_match [where m = "''text/plain''"
        and fn = "''doc-guest-1-2-cv.fakepdf''"
        and n = 10 and t = "''png''" and a = ALLOWED_IMAGE_TYPES and pre = "''.x''"
        and post = "''x''"
        and f = "\<lparr>originalname = ''a.xpngx'', mimetype = ''image/gif'', filename = ''f'',
                  size_f = 1\<rparr>"]
    by simp
qed

subsection \<open>deleteFile\<close>

lemma deleteFile_cases:
  "deleteFile d p =
     (case d p of
        None \<Rightarrow> Inr (False, d)
      | Some Dir \<Rightarrow> Inr (False, d)
      | Some File \<Rightarrow> Inr (True, d(p := None)))"
  by (simp add: deleteFile_def deleteFile_try_def existsSync_def unlinkSync_def
      split: option.splits node.splits)

lemma removePath_cases:
  "removePath d p = (if d p = Some File then d(p := None) else d)"
  by (simp add: removePath_def deleteFile_cases split: option.splits node.splits)

text \<open>
  C10. deleteFile on a path where nothing exists returns false and leaves the disk as it
  is; deleteFile never raises, whatever the path holds; and after any call of deleteFile
  on a path, a second call on the same path returns false and changes nothing.
\<close>

theorem deleteFile_missing_path:
  "(\<not> existsSync d p \<longrightarrow> deleteFile d p = Inr (False, d))
   \<and> deleteFile d p \<noteq> Inl x
   \<and> (deleteFile d p = Inr (r, d') \<longrightarrow> deleteFile d' p = Inr (False, d'))"
  by (auto simp: deleteFile_cases existsSync_def split: option.splits node.splits)

theorem deleteFile_missing_path_witness:
  "\<not> existsSync [''a.png'' \<mapsto> File] ''b.png''
   \<and> deleteFile [''a.png'' \<mapsto> File] ''b.png'' = Inr (False, [''a.png'' \<mapsto> File])
   \<and> deleteFile [''a.png'' \<mapsto> File] ''a.png'' = Inr (True, Map.empty)
   \<and> deleteFile Map.empty ''a.png'' = Inr (False, Map.empty)"
  using deleteFile_missing_path [of "[''a.png'' \<mapsto> File]" "''b.png''"]
    deleteFile_missing_path [where d = "[''a.png'' \<mapsto> File]" and p = "''a.png''"
      and r = True and d' = Map.empty]
  by (simp add: existsSync_def deleteFile_cases)

section \<open>Properties of the authentication controller\<close>

subsection \<open>Store and disk helpers\<close>

lemma find_uid: "find (\<lambda>u. uid u = i) us = Some u \<Longrightarrow> uid u = i"
  by (induction us) (auto split: if_splits)

lemma map_replaceById:
  "findById us i = Some u \<Longrightarrow> g u' = g u \<Longrightarrow> map g (replaceById i u' us) = map g us"
  unfolding findById_def
  by (induction us) (auto split: if_splits)

lemma findOne_replaceById:
  assumes "findOne us em = Some u" and "findById us i = Some u" and "email u' = em"
  shows "findOne (replaceById i u' us) em = Some u'"
  using assms unfolding findOne_def findById_def
proof (induction us)
  case Nil
  then show ?case by simp
next
  case (Cons x us)
  show ?case
  proof (cases "uid x = i")
    case True
    with Cons.prems show ?thesis by simp
  next
    case False
    with Cons.prems have tl: "find (\<lambda>u. uid u = i) us = Some u" by simp
    then have "uid u = i" by (rule find_uid)
    with False have "x \<noteq> u" by auto
    with Cons.prems(1) have "email x \<noteq> em" "find (\<lambda>u. email u = em) us = Some u"
      by (auto split: if_splits)
    with Cons.IH tl Cons.prems(3) False show ?thesis by simp
  qed
qed

lemma cleanup_users: "users (cleanupUploadedFile e s file) = users s"
  by (simp add: cleanupUploadedFile_def split: option.splits)

lemma verifyEmail_filter: "verifyEmail us em \<longleftrightarrow> filter (\<lambda>u. email u = em) us \<noteq> []"
  by (simp add: verifyEmail_def list_ex_iff filter_empty_conv)

subsection \<open>Login failures\<close>

text \<open>
  In the first definition of login, when the lookup and the comparison return, an unknown
  email and a wrong password for a known email get the same response: status 401 with the
  message ``Invalid email or password''.
\<close>

lemma login_failures_identical:
  assumes "\<not> throws e UserFindOne" and "findOne (users s) em = None"
    and "\<not> throws e' UserFindOne" and "findOne (users s') em' = Some u"
    and "\<not> throws e' BcryptCompare" and "\<not> bcrypt_compare e' pw' (password u)"
  shows "fst (login e s em pw) = failure 401 ''Invalid email or password''"
    and "fst (login e' s' em' pw') = fst (login e s em pw)"
  using assms by (simp_all add: login_def)

text \<open>
  When the comparison itself throws, the first definition answers a known email with
  status 500 and an unknown one with status 401.
\<close>

lemma login_compare_throw_distinguishes:
  "status (fst (login failingCompareEnv demoState ''nobody@example.com'' ''guess'')) = 401
   \<and> status (fst (login failingCompareEnv demoState ''ann@example.com'' ''guess'')) = 500"
  by (simp add: login_def failingCompareEnv_def demoEnv_def demoState_def findOne_def ann_def
      failure_def internalError_def)

text \<open>
  C1. Every login failure for an unknown email and for a wrong password should be the same
  response. The second definition of login answers an unknown email with status 404 and
  ``User not found'', and a wrong password for the stored user with status 401 and
  ``Invalid password'': the two responses differ, so a caller learns which emails are
  registered.
\<close>

theorem login2_distinguishes_unknown_email:
  "findOne (users demoState) ''nobody@example.com'' = None
   \<and> findOne (users demoState) ''ann@example.com'' = Some ann
   \<and> \<not> bcrypt_compare demoEnv ''guess'' (password ann)
   \<and> fst (login2 demoEnv demoState ''nobody@example.com'' ''guess'') = failure 404 ''User not found''
   \<and> fst (login2 demoEnv demoState ''ann@example.com'' ''guess'') = failure 401 ''Invalid password''
   \<and> fst (login2 demoEnv demoState ''nobody@example.com'' ''guess'')
       \<noteq> fst (login2 demoEnv demoState ''ann@example.com'' ''guess'')"
  by (simp add: login2_def demoEnv_def demoState_def findOne_def ann_def failure_def)

subsection \<open>Cleanup of the uploaded file on a failed registration\<close>

text \<open>
  The second definition of register never reads \<^verbatim>\<open>req.file\<close>: it has no upload feature,
  and a request is handled as if it carried no file.
\<close>

lemma register2_ignores_file:
  "register2 e s nm em pw file = register2 e s nm em pw None"
  by (simp add: register2_def)




subsection \<open>Replacing the profile image\<close>

text \<open>
  What holds of the old image: a request without a file deletes nothing, a throw of the
  lookup leaves every file but the new upload in place, and a request for a user that is
  not stored is answered with status 404 and changes nothing.
\<close>

lemma updateProfile_without_file_keeps_disk:
  "fsys (snd (updateProfile e s i body None)) = fsys s"
  by (simp add: updateProfile_def updateProfile_prepare_def updateProfile_catch_def
      cleanupUploadedFile_def split: prod.splits option.splits)

lemma updateProfile_lookup_throw_keeps_old_image:
  assumes "throws e UserFindById" and "p \<noteq> uploadPath e f"
  shows "fsys (snd (updateProfile e s i body (Some f))) p = fsys s p"
  using assms
  by (simp add: updateProfile_def updateProfile_prepare_def updateProfile_catch_def
      cleanupUploadedFile_def removePath_cases)

lemma updateProfile_unknown_user_keeps_disk:
  assumes "findById (users s) i = None" and "\<forall>c. \<not> throws e c"
  shows "updateProfile e s i body file = (failure 404 ''User not found'', s)"
  using assms
  by (cases "file")
    (simp_all add: updateProfile_def updateProfile_prepare_def findByIdAndUpdate_def)

text \<open>
  C3. The old profile image should go only as part of a successful update. updateProfile
  deletes it before the database write: when that write throws, the handler answers 500,
  the stored user still names the old image, and the old image is no longer on disk.
\<close>

theorem updateProfile_failed_update_deletes_old_image:
  "findById (users demoState) 1 = Some ann
   \<and> profileImage ann = Some ''uploads/profiles/old.png''
   \<and> fsys demoState ''/srv/app/uploads/profiles/old.png'' = Some File
   \<and> status (fst (updateProfile failingUpdateEnv demoState 1 Map.empty (Some newImage))) = 500
   \<and> users (snd (updateProfile failingUpdateEnv demoState 1 Map.empty (Some newImage))) = [ann]
   \<and> fsys (snd (updateProfile failingUpdateEnv demoState 1 Map.empty (Some newImage)))
        ''/srv/app/uploads/profiles/old.png'' = None"
  by (simp add: updateProfile_def updateProfile_prepare_def updateProfile_catch_def
      failingUpdateEnv_def demoEnv_def demoState_def findById_def ann_def newImage_def
      internalError_def cleanupUploadedFile_def removePath_cases path_join_def uploadPath_def)

subsection \<open>Email and password under a profile update\<close>

lemma applyUpdates_stripped:
  "fieldUpdate upd ''email'' = None \<Longrightarrow> fieldUpdate upd ''password'' = None \<Longrightarrow>
     email (applyUpdates upd u) = email u \<and> password (applyUpdates upd u) = password u"
  by (simp add: applyUpdates_def)

lemma findByIdAndUpdate_keeps:
  assumes "fieldUpdate upd ''email'' = None" and "fieldUpdate upd ''password'' = None"
  shows "map email (snd (findByIdAndUpdate us i upd)) = map email us
       \<and> map password (snd (findByIdAndUpdate us i upd)) = map password us"
  using assms
  by (auto simp: findByIdAndUpdate_def applyUpdates_stripped map_replaceById split: option.splits)

lemma prepare_stripped:
  "updateProfile_prepare e s i body file = Inr (upd, s') \<Longrightarrow> body ''$set'' = None \<Longrightarrow>
     fieldUpdate upd ''email'' = None \<and> fieldUpdate upd ''password'' = None
     \<and> users s' = users s"
  by (auto simp: updateProfile_prepare_def Let_def fieldUpdate_def operatorSet_def
      split: option.splits if_splits)

text \<open>
  The first definition of updateProfile deletes the top-level password and email fields
  from the payload: a body without the \<^verbatim>\<open>$set\<close> operator changes no email and no password
  hash of the store.
\<close>

lemma updateProfile_keeps_credentials:
  assumes "body ''$set'' = None"
  shows "map email (users (snd (updateProfile e s i body file))) = map email (users s)
   \<and> map password (users (snd (updateProfile e s i body file))) = map password (users s)"
proof (cases "updateProfile_prepare e s i body file")
  case (Inl c)
  then show ?thesis
    by (simp add: updateProfile_def updateProfile_catch_def cleanup_users)
next
  case (Inr r)
  obtain upd s' where r: "r = (upd, s')" by (cases r)
  from Inr r assms have st: "fieldUpdate upd ''email'' = None"
    "fieldUpdate upd ''password'' = None" "users s' = users s"
    using prepare_stripped by blast+
  show ?thesis
    using Inr r st findByIdAndUpdate_keeps[OF st(1,2), of "users s" i]
    by (auto simp: updateProfile_def updateProfile_catch_def cleanup_users
        split: prod.splits option.splits)
qed

text \<open>
  The deletes do not reach a field under \<^verbatim>\<open>$set\<close>: with that operator in the body, the
  first definition of updateProfile replaces the stored email as well.
\<close>

lemma updateProfile_set_operator_changes_email:
  "success (fst (updateProfile demoEnv demoState 1
      [''$set'' \<mapsto> Obj [(''email'', ''eve@example.com'')]] None))
   \<and> users (snd (updateProfile demoEnv demoState 1
      [''$set'' \<mapsto> Obj [(''email'', ''eve@example.com'')]] None))
       = [ann\<lparr>email := ''eve@example.com''\<rparr>]"
  by (simp add: updateProfile_def updateProfile_prepare_def demoEnv_def demoState_def
      findByIdAndUpdate_def findById_def applyUpdates_def fieldUpdate_def operatorSet_def
      ann_def)

text \<open>
  C4. No profile update should change the user's email or password hash. The second
  definition of updateProfile deletes only the password field: a body with an email field
  succeeds and replaces the stored email.
\<close>

theorem updateProfile2_changes_email:
  "email ann = ''ann@example.com''
   \<and> success (fst (updateProfile2 demoEnv demoState 1
        [''email'' \<mapsto> Str ''eve@example.com''] None))
   \<and> users (snd (updateProfile2 demoEnv demoState 1
        [''email'' \<mapsto> Str ''eve@example.com''] None))
       = [ann\<lparr>email := ''eve@example.com''\<rparr>]"
  by (simp add: updateProfile2_def demoEnv_def demoState_def findByIdAndUpdate_def findById_def
      applyUpdates_def fieldUpdate_def operatorSet_def ann_def)

subsection \<open>Registering the same email twice\<close>

lemma register_success:
  assumes "register e s nm em pw file = (r, s')" and "success r"
  shows "\<not> verifyEmail (users s) em \<and> (\<exists>u. email u = em \<and> users s' = users s @ [u])"
  using assms
  by (auto simp: register_def register_catch_def Let_def failure_def internalError_def
      split: if_splits)

lemma register_existing_email_no_write:
  "verifyEmail (users s) em \<Longrightarrow> users (snd (register e s nm em pw file)) = users s"
  by (simp add: register_def register_catch_def cleanup_users)

text \<open>
  C5. When a registration succeeds, a second registration with the same email, whose
  lookup returns, is answered with status 400 and ``Email already registered''; it writes
  no user, and the store holds exactly one user with that email. The check comes before
  any write: whenever the email is already stored, register leaves the users unchanged.
\<close>

theorem register_twice_duplicate:
  assumes "register e s nm em pw file = (r, s')" and "success r"
    and "\<not> throws e' VerifyEmail"
  shows "fst (register e' s' nm' em pw' file') = failure 400 ''Email already registered''
     \<and> users (snd (register e' s' nm' em pw' file')) = users s'
     \<and> length (filter (\<lambda>u. email u = em) (users s')) = 1
     \<and> (verifyEmail (users s0) em0 \<longrightarrow>
          users (snd (register e0 s0 nm0 em0 pw0 file0)) = users s0)"
proof -
  from register_success[OF assms(1,2)] obtain u where
    fresh: "\<not> verifyEmail (users s) em" and u: "email u = em" "users s' = users s @ [u]"
    by blast
  from fresh have none: "filter (\<lambda>u. email u = em) (users s) = []"
    by (simp add: verifyEmail_filter)
  have dup: "verifyEmail (users s') em"
    using u by (simp add: verifyEmail_def)
  have one: "length (filter (\<lambda>u. email u = em) (users s')) = 1"
    using none u by simp
  have resp: "fst (register e' s' nm' em pw' file') = failure 400 ''Email already registered''"
    using dup assms(3) by (simp add: register_def)
  show ?thesis
    using resp one register_existing_email_no_write[OF dup] register_existing_email_no_write
    by blast
qed

theorem register_twice_duplicate_witness:
  "success (fst (register demoEnv demoState ''Bob'' ''bob@example.com'' ''Passw0rd!'' None))
   \<and> fst (register demoEnv
            (snd (register demoEnv demoState ''Bob'' ''bob@example.com'' ''Passw0rd!'' None))
            ''Robert'' ''bob@example.com'' ''0therPass!'' (Some newImage))
       = failure 400 ''Email already registered''
   \<and> length (filter (\<lambda>u. email u = ''bob@example.com'')
        (users (snd (register demoEnv demoState ''Bob'' ''bob@example.com'' ''Passw0rd!'' None))))
       = 1"
proof -
  have ok: "success (fst (register demoEnv demoState ''Bob'' ''bob@example.com'' ''Passw0rd!'' None))"
    by (simp add: register_def demoEnv_def demoState_def verifyEmail_def ann_def Let_def)
  have nt: "\<not> throws demoEnv VerifyEmail"
    by (simp add: demoEnv_def)
  show ?thesis
    using ok register_twice_duplicate [OF surjective_pairing ok nt,
        where nm' = "''Robert''" and pw' = "''0therPass!''" and file' = "Some newImage"]
    by simp
qed

subsection \<open>Changing the password\<close>

text \<open>
  C6, as amended. For a request by an existing user in which no call throws, the
  validation checks come first: a missing or empty old or new password, and then a new
  password shorter than 6 characters, are answered with status 400 whatever the old
  password is. Otherwise an old password that does not match the stored hash is answered
  with status 401 and ``Old password is incorrect''. Otherwise the request succeeds and
  stores the hash of the new password; afterwards a login with the new password succeeds
  when the comparison accepts it against its own hash, and a login with the old password
  fails when the comparison rejects it against the new hash.
\<close>

theorem changePassword_outcomes:
  assumes "findById (users s) i = Some u" and "\<forall>c. \<not> throws e c"
  shows
    "(falsy old \<or> falsy new \<longrightarrow>
        changePassword e s i old new
          = (failure 400 ''Old password and new password are required'', s))
     \<and> (opw \<noteq> [] \<and> npw \<noteq> [] \<and> length npw < 6 \<longrightarrow>
        changePassword e s i (Some opw) (Some npw)
          = (failure 400 ''New password must be at least 6 characters long'', s))
     \<and> (opw \<noteq> [] \<and> 6 \<le> length npw \<and> \<not> bcrypt_compare e opw (password u) \<longrightarrow>
        changePassword e s i (Some opw) (Some npw)
          = (failure 401 ''Old password is incorrect'', s))
     \<and> (opw \<noteq> [] \<and> 6 \<le> length npw \<and> bcrypt_compare e opw (password u) \<longrightarrow>
        status (fst (changePassword e s i (Some opw) (Some npw))) = 200
        \<and> success (fst (changePassword e s i (Some opw) (Some npw)))
        \<and> snd (changePassword e s i (Some opw) (Some npw))
            = s\<lparr>users := replaceById i (u\<lparr>password := bcrypt_hash e npw\<rparr>) (users s)\<rparr>)
     \<and> (opw \<noteq> [] \<and> 6 \<le> length npw \<and> bcrypt_compare e opw (password u)
          \<and> findOne (users s) (email u) = Some u \<and> (\<forall>c. \<not> throws e' c)
          \<and> bcrypt_compare e' npw (bcrypt_hash e npw) \<longrightarrow>
        success (fst (login e' (snd (changePassword e s i (Some opw) (Some npw))) (email u) npw)))
     \<and> (opw \<noteq> [] \<and> 6 \<le> length npw \<and> bcrypt_compare e opw (password u)
          \<and> findOne (users s) (email u) = Some u \<and> (\<forall>c. \<not> throws e' c)
          \<and> \<not> bcrypt_compare e' opw (bcrypt_hash e npw) \<longrightarrow>
        fst (login e' (snd (changePassword e s i (Some opw) (Some npw))) (email u) opw)
          = failure 401 ''Invalid email or password'')"
proof -
  have req: "falsy old \<or> falsy new \<Longrightarrow>
      changePassword e s i old new
        = (failure 400 ''Old password and new password are required'', s)"
    by (simp add: changePassword_def)
  have short: "opw \<noteq> [] \<Longrightarrow> npw \<noteq> [] \<Longrightarrow> length npw < 6 \<Longrightarrow>
      changePassword e s i (Some opw) (Some npw)
        = (failure 400 ''New password must be at least 6 characters long'', s)"
    by (simp add: changePassword_def falsy_def)
  have long: "6 \<le> length npw \<Longrightarrow> npw \<noteq> []" by auto
  have wrong: "opw \<noteq> [] \<Longrightarrow> 6 \<le> length npw \<Longrightarrow> \<not> bcrypt_compare e opw (password u) \<Longrightarrow>
      changePassword e s i (Some opw) (Some npw) = (failure 401 ''Old password is incorrect'', s)"
    using assms long by (simp add: changePassword_def falsy_def)
  have good: "changePassword e s i (Some opw) (Some npw)
        = (\<lparr>status = 200, success = True, message = ''Password changed successfully'',
             data = None, error = None, cookie = None\<rparr>,
           s\<lparr>users := replaceById i (u\<lparr>password := bcrypt_hash e npw\<rparr>) (users s)\<rparr>)"
    if "opw \<noteq> []" "6 \<le> length npw" "bcrypt_compare e opw (password u)"
    using assms that long by (simp add: changePassword_def falsy_def Let_def)
  have found: "findOne (users (snd (changePassword e s i (Some opw) (Some npw)))) (email u)
        = Some (u\<lparr>password := bcrypt_hash e npw\<rparr>)"
    if "opw \<noteq> []" "6 \<le> length npw" "bcrypt_compare e opw (password u)"
      "findOne (users s) (email u) = Some u"
    using good[OF that(1-3)] findOne_replaceById[OF that(4) assms(1), of "u\<lparr>password := bcrypt_hash e npw\<rparr>"]
    by simp
  have new_ok: "success (fst (login e' (snd (changePassword e s i (Some opw) (Some npw))) (email u) npw))"
    if "opw \<noteq> []" "6 \<le> length npw" "bcrypt_compare e opw (password u)"
      "findOne (users s) (email u) = Some u" "\<forall>c. \<not> throws e' c"
      "bcrypt_compare e' npw (bcrypt_hash e npw)"
    using found[OF that(1-4)] that(5,6) by (simp add: login_def Let_def)
  have old_fails: "fst (login e' (snd (changePassword e s i (Some opw) (Some npw))) (email u) opw)
          = failure 401 ''Invalid email or password''"
    if "opw \<noteq> []" "6 \<le> length npw" "bcrypt_compare e opw (password u)"
      "findOne (users s) (email u) = Some u" "\<forall>c. \<not> throws e' c"
      "\<not> bcrypt_compare e' opw (bcrypt_hash e npw)"
    using found[OF that(1-4)] that(5,6) by (simp add: login_def Let_def)
  show ?thesis
    using req short wrong good new_ok old_fails by simp
qed

theorem changePassword_outcomes_witness:
  "findById (users demoState) 1 = Some ann
   \<and> changePassword demoEnv demoState 1 None (Some ''newsecret'')
       = (failure 400 ''Old password and new password are required'', demoState)
   \<and> changePassword demoEnv demoState 1 (Some ''secret1'') (Some ''abcde'')
       = (failure 400 ''New password must be at least 6 characters long'', demoState)
   \<and> changePassword demoEnv demoState 1 (Some ''wrong'') (Some ''newsecret'')
       = (failure 401 ''Old password is incorrect'', demoState)
   \<and> status (fst (changePassword demoEnv demoState 1 (Some ''secret1'') (Some ''newsecret''))) = 200
   \<and> success (fst (login demoEnv
        (snd (changePassword demoEnv demoState 1 (Some ''secret1'') (Some ''newsecret'')))
        ''ann@example.com'' ''newsecret''))
   \<and> fst (login demoEnv
        (snd (changePassword demoEnv demoState 1 (Some ''secret1'') (Some ''newsecret'')))
        ''ann@example.com'' ''secret1'') = failure 401 ''Invalid email or password''"
proof -
  have u: "findById (users demoState) 1 = Some ann"
    by (simp add: demoState_def findById_def ann_def)
  have nt: "\<forall>c. \<not> throws demoEnv c"
    by (simp add: demoEnv_def)
  have f: "findOne (users demoState) (email ann) = Some ann"
    by (simp add: demoState_def findOne_def)
  have em: "email ann = ''ann@example.com''"
    by (simp add: ann_def)
  have c: "bcrypt_compare demoEnv ''secret1'' (password ann)"
    "\<not> bcrypt_compare demoEnv ''wrong'' (password ann)"
    "bcrypt_compare demoEnv ''newsecret'' (bcrypt_hash demoEnv ''newsecret'')"
    "\<not> bcrypt_compare demoEnv ''secret1'' (bcrypt_hash demoEnv ''newsecret'')"
    by (simp_all add: demoEnv_def ann_def)
  note T = changePassword_outcomes [OF u nt]
  have a: "changePassword demoEnv demoState 1 None (Some ''newsecret'')
       = (failure 400 ''Old password and new password are required'', demoState)"
    using T [where old = None and new = "Some ''newsecret''" and opw = "''x''" and npw = "''y''"
        and e' = demoEnv]
    by (simp add: falsy_def)
  have b: "changePassword demoEnv demoState 1 (Some ''secret1'') (Some ''abcde'')
       = (failure 400 ''New password must be at least 6 characters long'', demoState)"
    using T [where opw = "''secret1''" and npw = "''abcde''" and old = None and new = None
        and e' = demoEnv]
    by simp
  have w: "changePassword demoEnv demoState 1 (Some ''wrong'') (Some ''newsecret'')
       = (failure 401 ''Old password is incorrect'', demoState)"
    using T [where opw = "''wrong''" and npw = "''newsecret''" and old = None and new = None
        and e' = demoEnv] c
    by simp
  note G = T [where opw = "''secret1''" and npw = "''newsecret''" and e' = demoEnv
      and old = None and new = None]
  have g: "status (fst (changePassword demoEnv demoState 1 (Some ''secret1'') (Some ''newsecret''))) = 200"
    using G [THEN conjunct2, THEN conjunct2, THEN conjunct2, THEN conjunct1] c by simp
  have n: "success (fst (login demoEnv
        (snd (changePassword demoEnv demoState 1 (Some ''secret1'') (Some ''newsecret'')))
        ''ann@example.com'' ''newsecret''))"
    using G [THEN conjunct2, THEN conjunct2, THEN conjunct2, THEN conjunct2, THEN conjunct1]
      c f nt em
    by simp
  have o: "fst (login demoEnv
        (snd (changePassword demoEnv demoState 1 (Some ''secret1'') (Some ''newsecret'')))
        ''ann@example.com'' ''secret1'') = failure 401 ''Invalid email or password''"
    using G [THEN conjunct2, THEN conjunct2, THEN conjunct2, THEN conjunct2, THEN conjunct2]
      c f nt em
    by simp
  show ?thesis
    using u a b w g n o by simp
qed

text \<open>
  The claim as first stated fails on two inputs. A wrong old password together with a new
  password of length 5 is answered with the validation error, not with the credentials
  error. And when the new password equals the old one, the change succeeds and a login
  with the old password still succeeds.
\<close>

theorem changePassword_validation_first_counterexample:
  "findById (users demoState) 1 = Some ann
   \<and> \<not> bcrypt_compare demoEnv ''wrong'' (password ann)
   \<and> fst (changePassword demoEnv demoState 1 (Some ''wrong'') (Some ''abcde''))
       = failure 400 ''New password must be at least 6 characters long''
   \<and> bcrypt_compare demoEnv ''secret1'' (password ann)
   \<and> success (fst (changePassword demoEnv demoState 1 (Some ''secret1'') (Some ''secret1'')))
   \<and> success (fst (login demoEnv
        (snd (changePassword demoEnv demoState 1 (Some ''secret1'') (Some ''secret1'')))
        ''ann@example.com'' ''secret1''))"
  by (simp add: changePassword_def login_def demoEnv_def demoState_def findById_def findOne_def
      ann_def falsy_def failure_def Let_def)

text \<open>
  The second definition of changePassword accepts a new password of length 5, and the
  second definition of register refuses a stored email as the first one does.
\<close>

lemma changePassword2_accepts_short_password:
  "success (fst (changePassword2 demoEnv demoState 1 (Some ''secret1'') (Some ''abcde'')))"
  by (simp add: changePassword2_def demoEnv_def demoState_def findById_def ann_def falsy_def
      Let_def)

lemma register2_existing_email_no_write:
  "verifyEmail (users s) em \<Longrightarrow> \<not> throws e VerifyEmail \<Longrightarrow>
     register2 e s nm em pw file = (failure 400 ''Email already registered'', s)"
  by (simp add: register2_def)

section \<open>Properties of the quiz\<close>

text \<open>
  The schema declares \<open>score\<close> and \<open>userAnswers\<close> as independent fields: a document can
  hold every required field and still break both conditions.
\<close>

lemma schema_alone_does_not_relate_score:
  "\<not> scoreMatches inconsistentQuiz \<and> \<not> indicesValid inconsistentQuiz"
  by (simp add: inconsistentQuiz_def scoreMatches_def indicesValid_def)

lemma created_inv: "scoreMatches (createQuiz u d qs) \<and> indicesValid (createQuiz u d qs)"
  by (simp add: createQuiz_def newQuiz_def scoreMatches_def indicesValid_def)

lemma answered_inv:
  assumes "answerQuestion q i sel = Inr q'" and "scoreMatches q" and "indicesValid q"
  shows "scoreMatches q' \<and> indicesValid q'"
  using assms
  by (auto simp: answerQuestion_def scoreMatches_def indicesValid_def Let_def split: if_splits)

lemma submitted_inv:
  assumes "submitQuiz q t = Inr q'" and "scoreMatches q" and "indicesValid q"
  shows "scoreMatches q' \<and> indicesValid q'"
  using assms
  by (auto simp: submitQuiz_def scoreMatches_def indicesValid_def split: option.splits)

text \<open>
  C8. In every state that creation, answers and submission reach, the score equals the
  number of recorded answers whose \<open>isCorrect\<close> flag is set, and every recorded answer's
  \<open>questionIndex\<close> points at an existing question.
\<close>

theorem reachable_quiz_invariant:
  "reachable q \<Longrightarrow> scoreMatches q \<and> indicesValid q"
proof (induction rule: reachable.induct)
  case (created u d qs)
  show ?case by (rule created_inv)
next
  case (answered q i sel q')
  then show ?case using answered_inv by blast
next
  case (submitted q t q')
  then show ?case using submitted_inv by blast
qed

lemma answeredQuiz_reachable: "reachable answeredQuiz"
proof -
  have 0: "reachable (createQuiz 1 7 [q1])" by (rule reachable.created)
  have 1: "answerQuestion (createQuiz 1 7 [q1]) 0 ''4'' =
     Inr \<lparr>userId = 1, documentId = 7, questions = [q1],
      userAnswers = [\<lparr>questionIndex = 0, selectedAnswer = ''4'', isCorrect = True\<rparr>],
      score = 1, totalQuestions = 1, answerAttempts = 1, completedAt = None\<rparr>"
    by (simp add: answerQuestion_def createQuiz_def newQuiz_def q1_def)
  have 2: "answerQuestion \<lparr>userId = 1, documentId = 7, questions = [q1],
      userAnswers = [\<lparr>questionIndex = 0, selectedAnswer = ''4'', isCorrect = True\<rparr>],
      score = 1, totalQuestions = 1, answerAttempts = 1, completedAt = None\<rparr> 0 ''3'' =
     Inr (answeredQuiz\<lparr>completedAt := None\<rparr>)"
    by (simp add: answerQuestion_def answeredQuiz_def q1_def)
  have 3: "submitQuiz (answeredQuiz\<lparr>completedAt := None\<rparr>) 99 = Inr answeredQuiz"
    by (simp add: submitQuiz_def answeredQuiz_def)
  from reachable.answered[OF 0 1] have "reachable \<lparr>userId = 1, documentId = 7, questions = [q1],
      userAnswers = [\<lparr>questionIndex = 0, selectedAnswer = ''4'', isCorrect = True\<rparr>],
      score = 1, totalQuestions = 1, answerAttempts = 1, completedAt = None\<rparr>" .
  from reachable.answered[OF this 2] have "reachable (answeredQuiz\<lparr>completedAt := None\<rparr>)" .
  from reachable.submitted[OF this 3] show ?thesis .
qed

theorem reachable_quiz_invariant_witness:
  "reachable answeredQuiz \<and> score answeredQuiz = 1
   \<and> length (filter isCorrect (userAnswers answeredQuiz)) = 1
   \<and> scoreMatches answeredQuiz \<and> indicesValid answeredQuiz"
  using answeredQuiz_reachable reachable_quiz_invariant [OF answeredQuiz_reachable]
  by (simp add: answeredQuiz_def)

end
